theory Spec2Isabelle
  imports Complex_Main
begin

section \<open>Values\<close>

text \<open>
  A floating-point value by class. A finite value is the rational number it denotes;
  negative zero is kept apart from \<open>Fin 0\<close> (positive zero), and a NaN carries its sign
  bit and its payload, so that two NaNs with different bit patterns are different
  values of the model.
\<close>

datatype fl = Fin rat | NegZero | PInf | NInf | NaN bool nat

text \<open>
  A number is a Python \<open>int\<close> or \<open>float\<close>, or an element of an integer or
  floating-point array.
\<close>

datatype number = IntV int | FloatV fl

datatype error = KeyError string | NumpyError nat

section \<open>The enumeration \<open>Replacement\<close>\<close>

datatype Replacement =
  finite_min | finite_mean | finite_max | nan_min | nan_mean | nan_max

text \<open>The member's name (\<open>v.name\<close>).\<close>

fun member_name :: "Replacement \<Rightarrow> string" where
  "member_name finite_min = ''finite_min''"
| "member_name finite_mean = ''finite_mean''"
| "member_name finite_max = ''finite_max''"
| "member_name nan_min = ''nan_min''"
| "member_name nan_mean = ''nan_mean''"
| "member_name nan_max = ''nan_max''"

text \<open>
  \<open>Replacement[v]\<close>: the lookup of a member by its name, which raises
  \<open>KeyError\<close> for any other string.
\<close>

definition Replacement_getitem :: "string \<Rightarrow> error + Replacement" where
  "Replacement_getitem v =
     (if v = ''finite_min'' then Inr finite_min
      else if v = ''finite_mean'' then Inr finite_mean
      else if v = ''finite_max'' then Inr finite_max
      else if v = ''nan_min'' then Inr nan_min
      else if v = ''nan_mean'' then Inr nan_mean
      else if v = ''nan_max'' then Inr nan_max
      else Inl (KeyError v))"

text \<open>
  \<open>str(v)\<close> of a member. \<open>Replacement\<close> derives from the plain \<open>Enum\<close>, whose
  \<open>__str__\<close> gives the class name, a dot and the member's name.
\<close>

definition Replacement_str :: "Replacement \<Rightarrow> string" where
  "Replacement_str v = ''Replacement.'' @ member_name v"

section \<open>Configuration\<close>

text \<open>
  The values of the mapping given to the constructor are an \<open>int\<close>, a \<open>float\<close>, a
  member of \<open>Replacement\<close> or a string; the values of the codec's own mapping are an
  \<open>int\<close>, a \<open>float\<close> or a member. A \<open>dict\<close> is an association list in insertion
  order; the comprehensions of the source go through the items of a \<open>dict\<close>, whose
  keys are already distinct, so they keep every entry and the order.
\<close>

datatype decl_value = DNum number | DMember Replacement | DStr string

datatype spec_value = Lit number | Member Replacement

record codec =
  replacements :: "(number \<times> spec_value) list"

record config =
  config_id :: string
  config_replacements :: "(number \<times> decl_value) list"

definition codec_id :: string where
  "codec_id = ''replace.filter''"

text \<open>The value of one entry: \<open>Replacement[v] if isinstance(v, str) else v\<close>.\<close>

fun normalise :: "decl_value \<Rightarrow> error + spec_value" where
  "normalise (DStr v) =
     (case Replacement_getitem v of Inl e \<Rightarrow> Inl e | Inr m \<Rightarrow> Inr (Member m))"
| "normalise (DMember m) = Inr (Member m)"
| "normalise (DNum n) = Inr (Lit n)"

text \<open>
  The comprehension of \<open>__init__\<close>, entry after entry; the first string that is not a
  member's name raises and no codec is built.
\<close>

fun normalise_items ::
  "(number \<times> decl_value) list \<Rightarrow> error + (number \<times> spec_value) list" where
  "normalise_items [] = Inr []"
| "normalise_items ((k, v) # kvs) =
     (case normalise v of
        Inl e \<Rightarrow> Inl e
      | Inr v' \<Rightarrow>
          (case normalise_items kvs of
             Inl e \<Rightarrow> Inl e
           | Inr kvs' \<Rightarrow> Inr ((k, v') # kvs')))"

text \<open>\<open>ReplaceFilterCodec.__init__\<close>.\<close>

definition init :: "(number \<times> decl_value) list \<Rightarrow> error + codec" where
  "init rs =
     (case normalise_items rs of
        Inl e \<Rightarrow> Inl e
      | Inr kvs \<Rightarrow> Inr \<lparr>replacements = kvs\<rparr>)"

text \<open>\<open>ReplaceFilterCodec.get_config\<close>.\<close>

fun export_value :: "spec_value \<Rightarrow> decl_value" where
  "export_value (Member m) = DStr (Replacement_str m)"
| "export_value (Lit n) = DNum n"

definition get_config :: "codec \<Rightarrow> config" where
  "get_config self =
     \<lparr>config_id = codec_id,
      config_replacements = map (\<lambda>(k, v). (k, export_value v)) (replacements self)\<rparr>"

text \<open>
  \<open>Codec.from_config\<close> of numcodecs, which \<open>get_codec\<close> calls once it has taken the
  \<open>id\<close> out of the configuration: the remaining entries are the keyword arguments of
  the constructor.
\<close>

definition from_config :: "config \<Rightarrow> error + codec" where
  "from_config c = init (config_replacements c)"

section \<open>Arrays and the numpy operations the codec calls\<close>

text \<open>
  An element type is an integer or a floating-point type of a given width and byte
  order; numpy has the integer widths 8, 16, 32 and 64 and the floating-point widths
  16, 32 and 64.
\<close>

datatype kind = SignedInt | UnsignedInt | Floating

datatype byteorder = LittleEndian | BigEndian

record dtype =
  kind :: kind
  bits :: nat
  order :: byteorder

text \<open>\<open>np.float64\<close> and \<open>np.int64\<close> in the byte order of a little-endian machine.\<close>

abbreviation float64 :: dtype where
  "float64 \<equiv> \<lparr>kind = Floating, bits = 64, order = LittleEndian\<rparr>"

abbreviation int64 :: dtype where
  "int64 \<equiv> \<lparr>kind = SignedInt, bits = 64, order = LittleEndian\<rparr>"

text \<open>
  An array has an element type, a shape and its elements, listed in row-major order;
  a 0-dimensional array has the shape \<open>[]\<close> and one element. The memory layout is
  not part of the model.
\<close>

record ndarray =
  dtype :: dtype
  shape :: "nat list"
  data :: "number list"

definition wf_array :: "ndarray \<Rightarrow> bool" where
  "wf_array x =
     (length (data x) = prod_list (shape x) \<and>
      list_all (\<lambda>e. case e of IntV _ \<Rightarrow> kind (dtype x) \<noteq> Floating
                             | FloatV _ \<Rightarrow> kind (dtype x) = Floating) (data x))"

text \<open>
  What numpy leaves to the floating-point arithmetic, to the platform or to its
  version is a parameter of the model:
  \<^item> \<open>mean_impl dt xs m\<close>: \<open>np.mean(x, where=m)\<close> when \<open>m\<close> selects an element,
    the rounded sum of the selected elements divided by their number, in \<open>float64\<close>
    for an integer array and in the array's type for a floating-point one;
  \<^item> \<open>nanmean_impl dt xs\<close>: \<open>np.nanmean(x)\<close> when an element is not NaN;
  \<^item> \<open>nan_sign\<close>, \<open>nan_payload\<close>: the bit pattern of the NaN that \<open>0.0 / 0\<close> gives;
  \<^item> \<open>astype_impl dt f\<close>: the integer that the cast of \<open>f\<close> to the integer type
    \<open>dt\<close> gives when \<open>f\<close> is a NaN, an infinity or out of the range of \<open>dt\<close>;
  \<^item> \<open>setitem_impl dt v\<close>: the conversion of a Python scalar to \<open>dt\<close> in an
    assignment, where it is not exact (rounding, an overflow, an error);
  \<^item> \<open>equal_impl dt e k\<close>: \<open>e == k\<close> where numpy compares in a type that does not
    hold both operands exactly;
  \<^item> \<open>copyto_impl s d\<close>: the copy of \<open>s\<close> into a destination of another element
    type or size (the bytes reinterpreted, or an error).
\<close>

record numpy_impl =
  mean_impl :: "dtype \<Rightarrow> number list \<Rightarrow> bool list \<Rightarrow> fl"
  nanmean_impl :: "dtype \<Rightarrow> number list \<Rightarrow> fl"
  nan_sign :: bool
  nan_payload :: nat
  astype_impl :: "dtype \<Rightarrow> fl \<Rightarrow> int"
  setitem_impl :: "dtype \<Rightarrow> number \<Rightarrow> error + number"
  equal_impl :: "dtype \<Rightarrow> number \<Rightarrow> number \<Rightarrow> bool"
  copyto_impl :: "ndarray \<Rightarrow> ndarray \<Rightarrow> error + ndarray"

subsection \<open>Classes of values and their order\<close>

fun isnan :: "number \<Rightarrow> bool" where
  "isnan (FloatV (NaN s p)) = True"
| "isnan _ = False"

fun isfinite :: "number \<Rightarrow> bool" where
  "isfinite (IntV i) = True"
| "isfinite (FloatV (Fin q)) = True"
| "isfinite (FloatV NegZero) = True"
| "isfinite (FloatV f) = False"

text \<open>\<open>isinstance(k, int)\<close>.\<close>

fun isinstance_int :: "number \<Rightarrow> bool" where
  "isinstance_int (IntV i) = True"
| "isinstance_int (FloatV f) = False"

text \<open>
  The position of a value that is not NaN on the extended number line: \<open>-inf\<close> is
  rank 0, a finite value rank 1 with its value, \<open>+inf\<close> rank 2. Both zeros have
  the value 0.
\<close>

fun rank :: "number \<Rightarrow> nat" where
  "rank (FloatV NInf) = 0"
| "rank (FloatV PInf) = 2"
| "rank _ = 1"

fun val :: "number \<Rightarrow> rat" where
  "val (IntV i) = of_int i"
| "val (FloatV (Fin q)) = q"
| "val _ = 0"

text \<open>\<open>x <= y\<close> and \<open>x >= y\<close> of two values: false when either is NaN.\<close>

definition num_le :: "number \<Rightarrow> number \<Rightarrow> bool" where
  "num_le x y =
     (\<not> isnan x \<and> \<not> isnan y \<and>
      (rank x < rank y \<or> (rank x = rank y \<and> (if rank x = 1 then val x \<le> val y else True))))"

definition num_ge :: "number \<Rightarrow> number \<Rightarrow> bool" where
  "num_ge x y = num_le y x"

text \<open>Equality of two values as numbers: false when either is NaN.\<close>

definition num_eq :: "number \<Rightarrow> number \<Rightarrow> bool" where
  "num_eq x y =
     (\<not> isnan x \<and> \<not> isnan y \<and> rank x = rank y \<and>
      (if rank x = 1 then val x = val y else True))"

subsection \<open>Element types\<close>

text \<open>\<open>np.issubdtype(x.dtype, np.floating)\<close>.\<close>

definition issubdtype_floating :: "dtype \<Rightarrow> bool" where
  "issubdtype_floating dt = (kind dt = Floating)"

record info =
  info_min :: number
  info_max :: number

text \<open>\<open>np.iinfo\<close>: the bounds of an integer type.\<close>

definition int_min :: "dtype \<Rightarrow> int" where
  "int_min dt = (if kind dt = UnsignedInt then 0 else - (2 ^ (bits dt - 1)))"

definition int_max :: "dtype \<Rightarrow> int" where
  "int_max dt = (if kind dt = UnsignedInt then 2 ^ bits dt - 1 else 2 ^ (bits dt - 1) - 1)"

definition iinfo :: "dtype \<Rightarrow> info" where
  "iinfo dt = \<lparr>info_min = IntV (int_min dt), info_max = IntV (int_max dt)\<rparr>"

text \<open>
  \<open>np.finfo\<close>: the largest finite value of a floating-point type and its negation
  (65504 for \<open>float16\<close>, \<open>2^128 - 2^104\<close> for \<open>float32\<close>, \<open>2^1024 - 2^971\<close> for
  \<open>float64\<close>).
\<close>

definition finfo_max :: "dtype \<Rightarrow> rat" where
  "finfo_max dt =
     (if bits dt = 16 then 65504
      else if bits dt = 32 then 2 ^ 128 - 2 ^ 104
      else 2 ^ 1024 - 2 ^ 971)"

definition finfo :: "dtype \<Rightarrow> info" where
  "finfo dt =
     \<lparr>info_min = FloatV (Fin (- finfo_max dt)), info_max = FloatV (Fin (finfo_max dt))\<rparr>"

text \<open>The number of bits of the significand: integers up to \<open>2 ^ precision\<close> are exact.\<close>

definition precision :: "dtype \<Rightarrow> nat" where
  "precision dt = (if bits dt = 16 then 11 else if bits dt = 32 then 24 else 53)"

subsection \<open>Masks and reductions\<close>

definition np_isfinite :: "ndarray \<Rightarrow> bool list" where
  "np_isfinite x = map isfinite (data x)"

definition np_isnan :: "ndarray \<Rightarrow> bool list" where
  "np_isnan x = map isnan (data x)"

text \<open>The elements that a mask selects.\<close>

definition select :: "bool list \<Rightarrow> 'a list \<Rightarrow> 'a list" where
  "select m xs = map snd (filter fst (zip m xs))"

text \<open>
  \<open>np.minimum\<close> and \<open>np.maximum\<close> of the running value and an element keep the
  running value when the comparison holds or when it is NaN; \<open>np.fmin\<close> and
  \<open>np.fmax\<close> keep it when the comparison holds or when the element is NaN. Of two
  zeros of different sign, equal as numbers, the running one is kept.
\<close>

definition np_minimum :: "number \<Rightarrow> number \<Rightarrow> number" where
  "np_minimum acc e = (if num_le acc e \<or> isnan acc then acc else e)"

definition np_maximum :: "number \<Rightarrow> number \<Rightarrow> number" where
  "np_maximum acc e = (if num_ge acc e \<or> isnan acc then acc else e)"

definition np_fmin :: "number \<Rightarrow> number \<Rightarrow> number" where
  "np_fmin acc e = (if num_le acc e \<or> isnan e then acc else e)"

definition np_fmax :: "number \<Rightarrow> number \<Rightarrow> number" where
  "np_fmax acc e = (if num_ge acc e \<or> isnan e then acc else e)"

text \<open>\<open>np.amin(x, initial=i, where=m)\<close> and \<open>np.amax(x, initial=i, where=m)\<close>.\<close>

definition np_amin :: "ndarray \<Rightarrow> number \<Rightarrow> bool list \<Rightarrow> number" where
  "np_amin x initial m = foldl np_minimum initial (select m (data x))"

definition np_amax :: "ndarray \<Rightarrow> number \<Rightarrow> bool list \<Rightarrow> number" where
  "np_amax x initial m = foldl np_maximum initial (select m (data x))"

text \<open>
  \<open>np.nanmin(x, initial=i)\<close> and \<open>np.nanmax(x, initial=i)\<close>, which reduce an
  array with \<open>np.fmin\<close> and \<open>np.fmax\<close>.
\<close>

definition np_nanmin :: "ndarray \<Rightarrow> number \<Rightarrow> number" where
  "np_nanmin x initial = foldl np_fmin initial (data x)"

definition np_nanmax :: "ndarray \<Rightarrow> number \<Rightarrow> number" where
  "np_nanmax x initial = foldl np_fmax initial (data x)"

text \<open>
  \<open>np.mean(x, where=m)\<close> and \<open>np.nanmean(x)\<close> divide a sum by the number of
  elements that count; when there is none, that is \<open>0.0 / 0\<close>, a NaN (and a
  warning).
\<close>

definition default_nan :: "numpy_impl \<Rightarrow> fl" where
  "default_nan P = NaN (nan_sign P) (nan_payload P)"

definition np_mean :: "numpy_impl \<Rightarrow> ndarray \<Rightarrow> bool list \<Rightarrow> fl" where
  "np_mean P x m =
     (if select m (data x) = [] then default_nan P else mean_impl P (dtype x) (data x) m)"

definition np_nanmean :: "numpy_impl \<Rightarrow> ndarray \<Rightarrow> fl" where
  "np_nanmean P x =
     (if list_ex (\<lambda>e. \<not> isnan e) (data x) then nanmean_impl P (dtype x) (data x)
      else default_nan P)"

text \<open>
  \<open>np.array(m).astype(dt)[()]\<close> of a mean \<open>m\<close>. The mean of a floating-point
  array already has the array's type. The cast to an integer type truncates towards
  zero; a NaN, an infinity and a value out of range have no defined result.
\<close>

definition trunc :: "rat \<Rightarrow> int" where
  "trunc q = (if 0 \<le> q then \<lfloor>q\<rfloor> else \<lceil>q\<rceil>)"

definition astype_int :: "numpy_impl \<Rightarrow> dtype \<Rightarrow> fl \<Rightarrow> int" where
  "astype_int P dt f =
     (case f of
        Fin q \<Rightarrow>
          (if int_min dt \<le> trunc q \<and> trunc q \<le> int_max dt then trunc q
           else astype_impl P dt f)
      | NegZero \<Rightarrow> 0
      | _ \<Rightarrow> astype_impl P dt f)"

definition astype :: "numpy_impl \<Rightarrow> dtype \<Rightarrow> fl \<Rightarrow> number" where
  "astype P dt f = (if issubdtype_floating dt then FloatV f else IntV (astype_int P dt f))"

section \<open>\<open>Replacement.compute\<close>\<close>

definition compute :: "numpy_impl \<Rightarrow> Replacement \<Rightarrow> ndarray \<Rightarrow> number" where
  "compute P self x =
     (let is_floating = issubdtype_floating (dtype x);
          info = (if is_floating then finfo (dtype x) else iinfo (dtype x))
      in case self of
           finite_min \<Rightarrow> np_amin x (info_max info) (np_isfinite x)
         | finite_mean \<Rightarrow> astype P (dtype x) (np_mean P x (np_isfinite x))
         | finite_max \<Rightarrow> np_amax x (info_min info) (np_isfinite x)
         | nan_min \<Rightarrow> np_nanmin x (if is_floating then FloatV PInf else info_max info)
         | nan_mean \<Rightarrow> astype P (dtype x) (np_nanmean P x)
         | nan_max \<Rightarrow> np_nanmax x (if is_floating then FloatV NInf else info_min info))"

section \<open>The store\<close>

text \<open>
  Arrays are objects that the codec reads and writes through references. The store
  lists the arrays that exist; a reference is a position in it, and a new array is
  put at the end.
\<close>

type_synonym heap = "ndarray list"

type_synonym ref = nat

text \<open>
  \<open>numcodecs.compat.ensure_ndarray\<close> gives a view of the buffer as an array and
  copies nothing: for an array it is the array itself.
\<close>

definition ensure_ndarray :: "ref \<Rightarrow> ref" where
  "ensure_ndarray buf = buf"

text \<open>\<open>np.copy\<close>: a new array with the element type, the shape and the elements of \<open>r\<close>.\<close>

definition np_copy :: "ref \<Rightarrow> heap \<Rightarrow> ref \<times> heap" where
  "np_copy r h = (length h, h @ [h ! r])"

subsection \<open>Comparison with a key\<close>

text \<open>
  \<open>e == k\<close> for an element \<open>e\<close> of an array of type \<open>dt\<close> and a Python scalar
  \<open>k\<close>. A NaN is equal to nothing. numpy compares an integer element with a Python
  \<open>int\<close> in the range of \<open>dt\<close> as integers, an integer element with a Python
  \<open>float\<close> in \<open>float64\<close>, and a floating-point element with a Python scalar in
  the array's type; the comparison is the one of the numbers when both operands are
  exact there.
\<close>

fun exact_compare :: "dtype \<Rightarrow> number \<Rightarrow> number \<Rightarrow> bool" where
  "exact_compare dt (IntV i) (IntV j) = (int_min dt \<le> j \<and> j \<le> int_max dt)"
| "exact_compare dt (IntV i) (FloatV g) = (\<bar>i\<bar> \<le> 2 ^ 53 \<or> rank (FloatV g) \<noteq> 1)"
| "exact_compare dt (FloatV f) (IntV j) = (\<bar>j\<bar> \<le> 2 ^ precision dt)"
| "exact_compare dt (FloatV f) (FloatV g) = (bits dt = 64 \<or> rank (FloatV g) \<noteq> 1)"

definition np_equal :: "numpy_impl \<Rightarrow> dtype \<Rightarrow> number \<Rightarrow> number \<Rightarrow> bool" where
  "np_equal P dt e k =
     (if isnan e \<or> isnan k then False
      else if exact_compare dt e k then num_eq e k
      else equal_impl P dt e k)"

text \<open>\<open>a == k\<close>, element by element.\<close>

definition np_equal_mask :: "numpy_impl \<Rightarrow> ndarray \<Rightarrow> number \<Rightarrow> bool list" where
  "np_equal_mask P x k = map (\<lambda>e. np_equal P (dtype x) e k) (data x)"

subsection \<open>Assignment through a mask\<close>

text \<open>
  The value assigned is a Python scalar of the configuration or a numpy scalar that
  \<open>compute\<close> has returned, which has the array's element type already.
\<close>

datatype resolved = Py number | Np number

text \<open>
  The conversion of the assigned value to the array's element type. A Python
  \<open>int\<close> in the range of an integer type, a Python \<open>int\<close> that a floating-point
  type holds exactly and a Python \<open>float\<close> in a \<open>float64\<close> array are kept as they
  are.
\<close>

fun setitem_cast :: "numpy_impl \<Rightarrow> dtype \<Rightarrow> resolved \<Rightarrow> error + number" where
  "setitem_cast P dt (Np x) = Inr x"
| "setitem_cast P dt (Py (IntV i)) =
     (if issubdtype_floating dt
      then (if \<bar>i\<bar> \<le> 2 ^ precision dt then Inr (FloatV (Fin (of_int i)))
            else setitem_impl P dt (IntV i))
      else (if int_min dt \<le> i \<and> i \<le> int_max dt then Inr (IntV i)
            else setitem_impl P dt (IntV i)))"
| "setitem_cast P dt (Py (FloatV f)) =
     (if issubdtype_floating dt \<and> bits dt = 64 then Inr (FloatV f)
      else setitem_impl P dt (FloatV f))"

text \<open>The elements after \<open>a[m] = c\<close>.\<close>

definition masked_assign :: "bool list \<Rightarrow> number \<Rightarrow> number list \<Rightarrow> number list" where
  "masked_assign m c xs = map (\<lambda>(b, x). if b then c else x) (zip m xs)"

text \<open>
  \<open>a[m] = v\<close> on the array that \<open>a\<close> refers to: the value is converted first, and
  an error of the conversion leaves the array as it is.
\<close>

definition setitem :: "numpy_impl \<Rightarrow> ref \<Rightarrow> bool list \<Rightarrow> resolved \<Rightarrow> heap \<Rightarrow> (error + unit) \<times> heap" where
  "setitem P a m v h =
     (case setitem_cast P (dtype (h ! a)) v of
        Inl e \<Rightarrow> (Inl e, h)
      | Inr c \<Rightarrow> (Inr (), h[a := (h ! a)\<lparr>data := masked_assign m c (data (h ! a))\<rparr>]))"

section \<open>\<open>ReplaceFilterCodec.encode\<close> and \<open>decode\<close>\<close>

text \<open>
  The dictionary \<open>replacements\<close> of \<open>encode\<close>: a member of \<open>Replacement\<close> is
  computed on the array \<open>a\<close>, any other value is kept.
\<close>

fun resolve :: "numpy_impl \<Rightarrow> ndarray \<Rightarrow> spec_value \<Rightarrow> resolved" where
  "resolve P x (Member v) = Np (compute P v x)"
| "resolve P x (Lit v) = Py v"

text \<open>The body of the loop, for one item \<open>(k, v)\<close>.\<close>

definition replace_step ::
  "numpy_impl \<Rightarrow> ref \<Rightarrow> number \<times> resolved \<Rightarrow> heap \<Rightarrow> (error + unit) \<times> heap" where
  "replace_step P a kv h =
     (case kv of (k, v) \<Rightarrow>
        if isinstance_int k \<or> \<not> isnan k
        then setitem P a (np_equal_mask P (h ! a) k) v h
        else setitem P a (np_isnan (h ! a)) v h)"

text \<open>The loop over the items, in their order; an exception ends it.\<close>

fun replace_loop ::
  "numpy_impl \<Rightarrow> ref \<Rightarrow> (number \<times> resolved) list \<Rightarrow> heap \<Rightarrow> (error + unit) \<times> heap" where
  "replace_loop P a [] h = (Inr (), h)"
| "replace_loop P a (kv # kvs) h =
     (case replace_step P a kv h of
        (Inl e, h') \<Rightarrow> (Inl e, h')
      | (Inr u, h') \<Rightarrow> replace_loop P a kvs h')"

definition encode :: "numpy_impl \<Rightarrow> codec \<Rightarrow> ref \<Rightarrow> heap \<Rightarrow> (error + ref) \<times> heap" where
  "encode P self buf h =
     (case np_copy (ensure_ndarray buf) h of (a, h1) \<Rightarrow>
        let replacements' = map (\<lambda>(k, v). (k, resolve P (h1 ! a) v)) (replacements self)
        in case replace_loop P a replacements' h1 of
             (Inl e, h2) \<Rightarrow> (Inl e, h2)
           | (Inr u, h2) \<Rightarrow> (Inr a, h2))"

text \<open>
  \<open>numcodecs.compat.ndarray_copy(src, dst)\<close>: without a destination it returns the
  source itself; with one it copies the elements of the source into the
  destination, which keeps its shape, and returns the destination.
\<close>

definition ndarray_copy :: "numpy_impl \<Rightarrow> ref \<Rightarrow> ref option \<Rightarrow> heap \<Rightarrow> (error + ref) \<times> heap" where
  "ndarray_copy P src out h =
     (case out of
        None \<Rightarrow> (Inr src, h)
      | Some dst \<Rightarrow>
          (if dtype (h ! dst) = dtype (h ! src) \<and> length (data (h ! dst)) = length (data (h ! src))
           then (Inr dst, h[dst := (h ! dst)\<lparr>data := data (h ! src)\<rparr>])
           else (case copyto_impl P (h ! src) (h ! dst) of
                   Inl e \<Rightarrow> (Inl e, h)
                 | Inr d \<Rightarrow> (Inr dst, h[dst := d]))))"

definition decode :: "numpy_impl \<Rightarrow> codec \<Rightarrow> ref \<Rightarrow> ref option \<Rightarrow> heap \<Rightarrow> (error + ref) \<times> heap" where
  "decode P self buf out h = ndarray_copy P buf out h"

section \<open>Auxiliary definitions for the statements\<close>

text \<open>
  The normal form of a declared value: a member's name stands for the member, a
  member and a number stand for themselves.
\<close>

fun normal_form :: "decl_value \<Rightarrow> spec_value \<Rightarrow> bool" where
  "normal_form (DStr s) (Member m) = (member_name m = s)"
| "normal_form (DStr s) (Lit n) = False"
| "normal_form (DMember m) v = (v = Member m)"
| "normal_form (DNum n) v = (v = Lit n)"

text \<open>
  One instance of the parameters, on which the model is evaluated at concrete
  inputs: means in exact arithmetic, the NaN of \<open>0.0 / 0\<close> with its sign bit set, the
  least integer for a cast without a defined result, an error for every conversion
  that is not exact, and the comparison of the numbers.
\<close>

definition ideal_mean :: "number list \<Rightarrow> fl" where
  "ideal_mean ys =
     (if list_all isfinite ys then Fin (sum_list (map val ys) / of_nat (length ys))
      else if list_ex isnan ys \<or> (FloatV PInf \<in> set ys \<and> FloatV NInf \<in> set ys)
      then NaN True 0
      else if FloatV PInf \<in> set ys then PInf
      else NInf)"

definition ideal_impl :: numpy_impl where
  "ideal_impl =
     \<lparr>mean_impl = (\<lambda>dt xs m. ideal_mean (select m xs)),
      nanmean_impl = (\<lambda>dt xs. ideal_mean (filter (\<lambda>e. \<not> isnan e) xs)),
      nan_sign = True,
      nan_payload = 0,
      astype_impl = (\<lambda>dt f. int_min dt),
      setitem_impl = (\<lambda>dt v. Inl (NumpyError 0)),
      equal_impl = (\<lambda>dt e k. num_eq e k),
      copyto_impl = (\<lambda>s d. Inl (NumpyError 1))\<rparr>"

section \<open>Configuration: construction and export\<close>

lemma Replacement_getitem_str:
  "Replacement_getitem (Replacement_str m) = Inl (KeyError (Replacement_str m))"
  by (cases m) (simp_all add: Replacement_getitem_def Replacement_str_def)

lemma Replacement_getitem_name: "Replacement_getitem (member_name m) = Inr m"
  by (cases m) (simp_all add: Replacement_getitem_def)

lemma Replacement_getitem_Inr: "Replacement_getitem s = Inr m \<Longrightarrow> member_name m = s"
  by (auto simp: Replacement_getitem_def split: if_splits)

lemma Replacement_getitem_Inl:
  assumes "Replacement_getitem s = Inl e"
  shows "e = KeyError s \<and> s \<notin> range member_name"
proof -
  from assms have "e = KeyError s"
    by (auto simp: Replacement_getitem_def split: if_splits)
  moreover have "s \<notin> range member_name"
  proof
    assume "s \<in> range member_name"
    then obtain m where "s = member_name m" by blast
    with assms Replacement_getitem_name[of m] show False by simp
  qed
  ultimately show ?thesis by simp
qed

text \<open>The export keeps the keys and their order.\<close>

lemma get_config_keys:
  "map fst (config_replacements (get_config c)) = map fst (replacements c)"
  by (simp add: get_config_def case_prod_beta comp_def)

text \<open>
  The exported text of a member is not a member's name, so a configuration with a
  member in it cannot be built again from its export.
\<close>

lemma normalise_items_export_member:
  "(k, Member m) \<in> set kvs \<Longrightarrow>
   \<exists>e. normalise_items (map (\<lambda>(k, v). (k, export_value v)) kvs) = Inl e"
proof (induction kvs)
  case Nil
  then show ?case by simp
next
  case (Cons kv kvs)
  obtain k' v' where kv: "kv = (k', v')" by (cases kv)
  show ?case
  proof (cases v')
    case (Member m')
    with kv show ?thesis by (simp add: Replacement_getitem_str)
  next
    case (Lit n)
    with kv Cons show ?thesis by (auto split: sum.splits)
  qed
qed

lemma from_config_get_config_member:
  "(k, Member m) \<in> set (replacements c) \<Longrightarrow> \<exists>e. from_config (get_config c) = Inl e"
  using normalise_items_export_member[of k m "replacements c"]
  by (auto simp: from_config_def get_config_def init_def)

text \<open>
  C1. The round trip of a configuration through \<open>get_config\<close>. The codec built from
  \<open>{0: "finite_mean"}\<close> exports \<open>{0: "Replacement.finite_mean"}\<close>, which is not the
  mapping it was built from, and building a codec from the export raises
  \<open>KeyError\<close>: the round trip that the claim states does not hold for a configuration
  with a statistic in it.
\<close>

theorem get_config_not_reconstructible:
  "init [(IntV 0, DStr ''finite_mean'')] =
     Inr \<lparr>replacements = [(IntV 0, Member finite_mean)]\<rparr> \<and>
   get_config \<lparr>replacements = [(IntV 0, Member finite_mean)]\<rparr> =
     \<lparr>config_id = ''replace.filter'',
      config_replacements = [(IntV 0, DStr ''Replacement.finite_mean'')]\<rparr> \<and>
   from_config (get_config \<lparr>replacements = [(IntV 0, Member finite_mean)]\<rparr>) =
     Inl (KeyError ''Replacement.finite_mean'')"
  by (simp add: init_def get_config_def from_config_def codec_id_def Replacement_getitem_def
      Replacement_str_def)

lemma normalise_items_Inl:
  "normalise_items rs = Inl e \<Longrightarrow>
   \<exists>k s. (k, DStr s) \<in> set rs \<and> s \<notin> range member_name \<and> e = KeyError s"
proof (induction rs)
  case Nil
  then show ?case by simp
next
  case (Cons kv rs)
  obtain k v where kv: "kv = (k, v)" by (cases kv)
  show ?case
  proof (cases "normalise v")
    case (Inl e')
    with Cons.prems kv have e: "e' = e" by simp
    from Inl obtain s where s: "v = DStr s" "Replacement_getitem s = Inl e'"
      by (cases v) (auto split: sum.splits)
    with Replacement_getitem_Inl[of s e'] e kv show ?thesis by auto
  next
    case (Inr v')
    with Cons.prems kv have "normalise_items rs = Inl e" by (auto split: sum.splits)
    from Cons.IH[OF this] show ?thesis by auto
  qed
qed

lemma normalise_items_unknown:
  "(k, DStr s) \<in> set rs \<Longrightarrow> s \<notin> range member_name \<Longrightarrow> \<exists>e. normalise_items rs = Inl e"
proof (induction rs)
  case Nil
  then show ?case by simp
next
  case (Cons kv rs)
  obtain k' v' where kv: "kv = (k', v')" by (cases kv)
  show ?case
  proof (cases "(k, DStr s) = kv")
    case True
    with kv have v: "v' = DStr s" by simp
    from Cons.prems(2) have "\<exists>e. Replacement_getitem s = Inl e"
      by (cases "Replacement_getitem s") (auto dest: Replacement_getitem_Inr)
    with kv v show ?thesis by auto
  next
    case False
    with Cons.prems have "(k, DStr s) \<in> set rs" by simp
    from Cons.IH[OF this Cons.prems(2)] kv show ?thesis by (auto split: sum.splits)
  qed
qed

lemma normalise_normal_form: "normalise v = Inr v' \<Longrightarrow> normal_form v v'"
  by (cases v) (auto split: sum.splits dest: Replacement_getitem_Inr)

lemma normalise_items_Inr:
  "normalise_items rs = Inr kvs \<Longrightarrow>
   map fst kvs = map fst rs \<and> list_all2 normal_form (map snd rs) (map snd kvs)"
proof (induction rs arbitrary: kvs)
  case Nil
  then show ?case by simp
next
  case (Cons kv rs)
  obtain k v where kv: "kv = (k, v)" by (cases kv)
  from Cons.prems kv obtain v' kvs' where
    n: "normalise v = Inr v'" and ns: "normalise_items rs = Inr kvs'" and
    k: "kvs = (k, v') # kvs'"
    by (auto split: sum.splits)
  from Cons.IH[OF ns] normalise_normal_form[OF n] kv k show ?case by simp
qed

text \<open>
  C9. A string that is not the name of a member makes the construction fail, with
  the \<open>KeyError\<close> of that string, and the construction fails for no other reason; a
  construction that succeeds has kept the keys in their order and has put every
  value in its normal form, each name replaced by its member. No codec exists
  before the construction has succeeded, and the values of a codec hold no string:
  nothing is left to validate when \<open>encode\<close> runs.
\<close>

theorem init_validates_names:
  "((\<exists>k s. (k, DStr s) \<in> set rs \<and> s \<notin> range member_name) \<longrightarrow> (\<exists>e. init rs = Inl e)) \<and>
   (init rs = Inl e \<longrightarrow>
      (\<exists>k s. (k, DStr s) \<in> set rs \<and> s \<notin> range member_name \<and> e = KeyError s)) \<and>
   (init rs = Inr c \<longrightarrow>
      map fst (replacements c) = map fst rs \<and>
      list_all2 normal_form (map snd rs) (map snd (replacements c)))"
proof (intro conjI impI)
  assume "\<exists>k s. (k, DStr s) \<in> set rs \<and> s \<notin> range member_name"
  then obtain k s where "(k, DStr s) \<in> set rs" "s \<notin> range member_name" by blast
  from normalise_items_unknown[OF this] show "\<exists>e. init rs = Inl e"
    by (auto simp: init_def)
next
  assume "init rs = Inl e"
  then have "normalise_items rs = Inl e" by (auto simp: init_def split: sum.splits)
  from normalise_items_Inl[OF this]
  show "\<exists>k s. (k, DStr s) \<in> set rs \<and> s \<notin> range member_name \<and> e = KeyError s" .
next
  assume "init rs = Inr c"
  then have n: "normalise_items rs = Inr (replacements c)"
    by (auto simp: init_def split: sum.splits)
  from normalise_items_Inr[OF n] show "map fst (replacements c) = map fst rs" by simp
  from normalise_items_Inr[OF n]
  show "list_all2 normal_form (map snd rs) (map snd (replacements c))" by simp
qed

lemma bogus_not_member: "''bogus'' \<notin> range member_name"
proof
  assume "''bogus'' \<in> range member_name"
  then obtain m where "''bogus'' = member_name m" by blast
  then show False by (cases m) simp_all
qed

theorem init_validates_names_witness:
  "(\<exists>e. init [(IntV 0, DStr ''nan_mean''), (IntV 1, DStr ''bogus'')] = Inl e) \<and>
   init [(IntV 0, DStr ''nan_mean''), (IntV 1, DStr ''bogus'')] = Inl (KeyError ''bogus'') \<and>
   init [(IntV 0, DStr ''nan_mean''), (IntV 1, DNum (IntV 7))] =
     Inr \<lparr>replacements = [(IntV 0, Member nan_mean), (IntV 1, Lit (IntV 7))]\<rparr> \<and>
   list_all2 normal_form [DStr ''nan_mean'', DNum (IntV 7)] [Member nan_mean, Lit (IntV 7)]"
proof -
  have i: "init [(IntV 0, DStr ''nan_mean''), (IntV 1, DStr ''bogus'')] = Inl (KeyError ''bogus'')"
    by (simp add: init_def Replacement_getitem_def)
  have j: "init [(IntV 0, DStr ''nan_mean''), (IntV 1, DNum (IntV 7))] =
     Inr \<lparr>replacements = [(IntV 0, Member nan_mean), (IntV 1, Lit (IntV 7))]\<rparr>"
    by (simp add: init_def Replacement_getitem_def)
  have m: "\<exists>k s. (k, DStr s) \<in> set [(IntV 0, DStr ''nan_mean''), (IntV 1, DStr ''bogus'')] \<and>
     s \<notin> range member_name"
    using bogus_not_member by auto
  from init_validates_names[of "[(IntV 0, DStr ''nan_mean''), (IntV 1, DStr ''bogus'')]"
      "KeyError ''bogus''" "\<lparr>replacements = []\<rparr>"] m
  have 1: "\<exists>e. init [(IntV 0, DStr ''nan_mean''), (IntV 1, DStr ''bogus'')] = Inl e" by blast
  from init_validates_names[of "[(IntV 0, DStr ''nan_mean''), (IntV 1, DNum (IntV 7))]"
      "KeyError []" "\<lparr>replacements = [(IntV 0, Member nan_mean), (IntV 1, Lit (IntV 7))]\<rparr>"] j
  have 2: "list_all2 normal_form [DStr ''nan_mean'', DNum (IntV 7)] [Member nan_mean, Lit (IntV 7)]"
    by simp
  from 1 i j 2 show ?thesis by simp
qed

text \<open>A configuration without a statistic is built again from its export.\<close>

lemma from_config_get_config_literals:
  "list_all (\<lambda>(k, v). case v of Lit n \<Rightarrow> True | Member m \<Rightarrow> False) (replacements c) \<Longrightarrow>
   from_config (get_config c) = Inr c"
proof -
  have "list_all (\<lambda>(k, v). case v of Lit n \<Rightarrow> True | Member m \<Rightarrow> False) kvs \<Longrightarrow>
        normalise_items (map (\<lambda>(k, v). (k, export_value v)) kvs) = Inr kvs" for kvs
    by (induction kvs) (auto split: spec_value.splits)
  then show "list_all (\<lambda>(k, v). case v of Lit n \<Rightarrow> True | Member m \<Rightarrow> False) (replacements c) \<Longrightarrow>
   from_config (get_config c) = Inr c"
    by (simp add: from_config_def get_config_def init_def)
qed

section \<open>The loop of \<open>encode\<close>\<close>

lemma masked_assign_map:
  "masked_assign (map p xs) c xs = map (\<lambda>e. if p e then c else e) xs"
  by (induction xs) (simp_all add: masked_assign_def)

lemma isinstance_int_not_nan: "isinstance_int k \<Longrightarrow> \<not> isnan k"
  by (cases k) simp_all


lemma np_equal_nan: "isnan e \<Longrightarrow> \<not> np_equal P dt e k"
  by (simp add: np_equal_def)


text \<open>One step of the loop, with the two branches of the source as one selection.\<close>

lemma replace_step_eq:
  "replace_step P a (k, v) h =
     (case setitem_cast P (dtype (h ! a)) v of
        Inl e \<Rightarrow> (Inl e, h)
      | Inr c \<Rightarrow> (Inr (), h[a := (h ! a)\<lparr>data :=
          map (\<lambda>e. if (if isnan k then isnan e else np_equal P (dtype (h ! a)) e k) then c else e)
            (data (h ! a))\<rparr>]))"
  using isinstance_int_not_nan[of k]
  by (auto simp: replace_step_def setitem_def np_equal_mask_def np_isnan_def masked_assign_map
      split: sum.splits)

text \<open>
  A step writes to the array \<open>a\<close> only, and changes neither its element type, nor
  its shape, nor the number of its elements.
\<close>

lemma replace_step_frame:
  assumes "replace_step P a kv h = (res, h')"
  shows "length h' = length h \<and> (\<forall>r. r \<noteq> a \<longrightarrow> h' ! r = h ! r) \<and>
         dtype (h' ! a) = dtype (h ! a) \<and> shape (h' ! a) = shape (h ! a) \<and>
         length (data (h' ! a)) = length (data (h ! a))"
proof (cases kv)
  case (Pair k v)
  show ?thesis
  proof (cases "a < length h")
    case True
    with assms Pair show ?thesis
      by (auto simp: replace_step_eq split: sum.splits)
  next
    case False
    then have "\<And>y. h[a := y] = h" by (simp add: list_update_beyond)
    with assms Pair show ?thesis
      by (auto simp: replace_step_eq split: sum.splits)
  qed
qed

lemma replace_loop_frame:
  "replace_loop P a kvs h = (res, h') \<Longrightarrow>
   length h' = length h \<and> (\<forall>r. r \<noteq> a \<longrightarrow> h' ! r = h ! r) \<and>
   dtype (h' ! a) = dtype (h ! a) \<and> shape (h' ! a) = shape (h ! a) \<and>
   length (data (h' ! a)) = length (data (h ! a))"
proof (induction kvs arbitrary: h)
  case Nil
  then show ?case by simp
next
  case (Cons kv kvs)
  obtain r1 h1 where s: "replace_step P a kv h = (r1, h1)"
    by (cases "replace_step P a kv h")
  note f = replace_step_frame[OF s]
  show ?case
  proof (cases r1)
    case (Inl e)
    with Cons.prems s f show ?thesis by simp
  next
    case (Inr u)
    with Cons.prems s have "replace_loop P a kvs h1 = (res, h')" by simp
    from Cons.IH[OF this] f show ?thesis by simp
  qed
qed

lemma replace_loop_append:
  "replace_loop P a (rs1 @ rs2) h =
     (case replace_loop P a rs1 h of
        (Inl e, h') \<Rightarrow> (Inl e, h')
      | (Inr u, h') \<Rightarrow> replace_loop P a rs2 h')"
  by (induction rs1 arbitrary: h) (auto split: prod.splits sum.splits)

text \<open>\<open>encode\<close> in terms of the store it is called in.\<close>

lemma encode_eq:
  "buf < length h \<Longrightarrow>
   encode P self buf h =
     (case replace_loop P (length h)
             (map (\<lambda>(k, v). (k, resolve P (h ! buf) v)) (replacements self)) (h @ [h ! buf]) of
        (Inl e, h2) \<Rightarrow> (Inl e, h2)
      | (Inr u, h2) \<Rightarrow> (Inr (length h), h2))"
  by (simp add: encode_def np_copy_def ensure_ndarray_def nth_append)

lemma encode_loop:
  assumes "buf < length h" and "encode P self buf h = (res, h')"
  shows "\<exists>res'. replace_loop P (length h)
             (map (\<lambda>(k, v). (k, resolve P (h ! buf) v)) (replacements self)) (h @ [h ! buf]) =
             (res', h') \<and>
           (\<forall>r. res = Inr r \<longrightarrow> r = length h \<and> res' = Inr ())"
  using assms by (auto simp: encode_eq split: prod.splits sum.splits)

lemma encode_append:
  assumes "buf < length h"
  shows "encode P \<lparr>replacements = rs1 @ rs2\<rparr> buf h =
     (case encode P \<lparr>replacements = rs1\<rparr> buf h of
        (Inl e, h1) \<Rightarrow> (Inl e, h1)
      | (Inr a, h1) \<Rightarrow>
          (case replace_loop P a (map (\<lambda>(k, v). (k, resolve P (h ! buf) v)) rs2) h1 of
             (Inl e, h2) \<Rightarrow> (Inl e, h2)
           | (Inr u, h2) \<Rightarrow> (Inr a, h2)))"
  by (simp add: encode_eq[OF assms] replace_loop_append split: prod.splits sum.splits)

lemma resolve_cases:
  "resolve P x v = (case v of Member s \<Rightarrow> Np (compute P s x) | Lit n \<Rightarrow> Py n)"
  by (cases v) simp_all

lemmas compute_simps =
  compute_def issubdtype_floating_def finfo_def finfo_max_def iinfo_def int_min_def int_max_def
  np_amin_def np_amax_def np_nanmin_def np_nanmax_def np_isfinite_def select_def
  np_minimum_def np_maximum_def np_fmin_def np_fmax_def num_le_def num_ge_def
  np_mean_def np_nanmean_def astype_def astype_int_def default_nan_def

text \<open>
  Two runs of \<open>encode\<close> on concrete arrays. In the first the rule \<open>1 \<rightarrow> 5\<close> comes
  before the rule \<open>0 \<rightarrow> nan_max\<close>, and \<open>nan_max\<close> is 1, the maximum of the array
  that was given, not 5.
\<close>

lemma encode_example:
  "encode ideal_impl \<lparr>replacements = [(IntV 1, Lit (IntV 5)), (IntV 0, Member nan_max)]\<rparr> 0 [\<lparr>dtype = int64, shape = [2], data = [IntV 0, IntV 1]\<rparr>] = (Inr 1, [\<lparr>dtype = int64, shape = [2], data = [IntV 0, IntV 1]\<rparr>, \<lparr>dtype = int64, shape = [2], data = [IntV 1, IntV 5]\<rparr>])"
  by (simp add: encode_eq replace_step_eq compute_simps np_equal_def num_eq_def)

lemma encode_nan_example:
  "encode ideal_impl \<lparr>replacements = [(IntV 1, Lit (IntV 9))]\<rparr> 0 [\<lparr>dtype = float64, shape = [2], data = [FloatV (NaN True 3), FloatV (Fin 1)]\<rparr>] = (Inr 1, [\<lparr>dtype = float64, shape = [2], data = [FloatV (NaN True 3), FloatV (Fin 1)]\<rparr>, \<lparr>dtype = float64, shape = [2], data = [FloatV (NaN True 3), FloatV (Fin 9)]\<rparr>])"
  by (simp add: encode_eq replace_step_eq issubdtype_floating_def precision_def np_equal_def
      num_eq_def)


section \<open>Properties of \<open>encode\<close> and \<open>decode\<close>\<close>

text \<open>
  C2. \<open>encode\<close> called on the array \<open>h ! buf\<close> runs the loop of the rules on a copy
  of that array, with the keys of the configuration in their order and with every
  statistic of the configuration computed on \<open>h ! buf\<close> itself, the array as it was
  given: each value of the loop is fixed by its entry of the configuration and the
  given array alone, whatever the other rules are and wherever the entry stands.
\<close>

theorem encode_resolves_on_original:
  assumes "buf < length h"
  shows "\<exists>rs. encode P self buf h =
           (case replace_loop P (length h) rs (h @ [h ! buf]) of
              (Inl e, h2) \<Rightarrow> (Inl e, h2)
            | (Inr u, h2) \<Rightarrow> (Inr (length h), h2)) \<and>
         map fst rs = map fst (replacements self) \<and>
         map snd rs =
           map (\<lambda>(k, v). case v of Member s \<Rightarrow> Np (compute P s (h ! buf)) | Lit n \<Rightarrow> Py n)
             (replacements self)"
proof -
  let ?rs = "map (\<lambda>(k, v). (k, resolve P (h ! buf) v)) (replacements self)"
  have "map fst ?rs = map fst (replacements self)"
    by (simp add: case_prod_beta comp_def)
  moreover have "map snd ?rs =
      map (\<lambda>(k, v). case v of Member s \<Rightarrow> Np (compute P s (h ! buf)) | Lit n \<Rightarrow> Py n)
        (replacements self)"
    by (simp add: case_prod_beta comp_def resolve_cases)
  ultimately show ?thesis using encode_eq[OF assms, of P self] by blast
qed

theorem encode_resolves_on_original_witness:
  "\<exists>rs. encode ideal_impl \<lparr>replacements = [(IntV 1, Lit (IntV 5)), (IntV 0, Member nan_max)]\<rparr> 0 [\<lparr>dtype = int64, shape = [2], data = [IntV 0, IntV 1]\<rparr>] =
           (case replace_loop ideal_impl 1 rs [\<lparr>dtype = int64, shape = [2], data = [IntV 0, IntV 1]\<rparr>, \<lparr>dtype = int64, shape = [2], data = [IntV 0, IntV 1]\<rparr>] of
              (Inl e, h2) \<Rightarrow> (Inl e, h2)
            | (Inr u, h2) \<Rightarrow> (Inr 1, h2)) \<and>
         map fst rs = [IntV 1, IntV 0] \<and>
         map snd rs = [Py (IntV 5), Np (IntV 1)]"
proof -
  have b: "0 < length [\<lparr>dtype = int64, shape = [2], data = [IntV 0, IntV 1]\<rparr>]" by simp
  have c: "compute ideal_impl nan_max \<lparr>dtype = int64, shape = [2], data = [IntV 0, IntV 1]\<rparr> = IntV 1" by (simp add: compute_simps)
  from encode_resolves_on_original[OF b, of ideal_impl "\<lparr>replacements = [(IntV 1, Lit (IntV 5)), (IntV 0, Member nan_max)]\<rparr>"]
  obtain rs where
    1: "encode ideal_impl \<lparr>replacements = [(IntV 1, Lit (IntV 5)), (IntV 0, Member nan_max)]\<rparr> 0 [\<lparr>dtype = int64, shape = [2], data = [IntV 0, IntV 1]\<rparr>] =
           (case replace_loop ideal_impl (length [\<lparr>dtype = int64, shape = [2], data = [IntV 0, IntV 1]\<rparr>]) rs ([\<lparr>dtype = int64, shape = [2], data = [IntV 0, IntV 1]\<rparr>] @ [[\<lparr>dtype = int64, shape = [2], data = [IntV 0, IntV 1]\<rparr>] ! 0]) of
              (Inl e, h2) \<Rightarrow> (Inl e, h2)
            | (Inr u, h2) \<Rightarrow> (Inr (length [\<lparr>dtype = int64, shape = [2], data = [IntV 0, IntV 1]\<rparr>]), h2))" and
    2: "map fst rs = map fst (replacements \<lparr>replacements = [(IntV 1, Lit (IntV 5)), (IntV 0, Member nan_max)]\<rparr>)" and
    3: "map snd rs =
           map (\<lambda>(k, v). case v of Member s \<Rightarrow> Np (compute ideal_impl s ([\<lparr>dtype = int64, shape = [2], data = [IntV 0, IntV 1]\<rparr>] ! 0)) | Lit n \<Rightarrow> Py n)
             (replacements \<lparr>replacements = [(IntV 1, Lit (IntV 5)), (IntV 0, Member nan_max)]\<rparr>)"
    by blast
  from 1 have 4: "encode ideal_impl \<lparr>replacements = [(IntV 1, Lit (IntV 5)), (IntV 0, Member nan_max)]\<rparr> 0 [\<lparr>dtype = int64, shape = [2], data = [IntV 0, IntV 1]\<rparr>] =
           (case replace_loop ideal_impl 1 rs [\<lparr>dtype = int64, shape = [2], data = [IntV 0, IntV 1]\<rparr>, \<lparr>dtype = int64, shape = [2], data = [IntV 0, IntV 1]\<rparr>] of
              (Inl e, h2) \<Rightarrow> (Inl e, h2)
            | (Inr u, h2) \<Rightarrow> (Inr 1, h2))"
    by (simp cong: prod.case_cong sum.case_cong)
  from 2 have 5: "map fst rs = [IntV 1, IntV 0]" by simp
  from 3 c have 6: "map snd rs = [Py (IntV 5), Np (IntV 1)]" by simp
  from 4 5 6 show ?thesis by (intro exI[of _ rs] conjI)
qed



text \<open>
  C4. The loop applies the rules one after the other, in the order of the list:
  the rules of \<open>ks1 @ ks2\<close> are those of \<open>ks1\<close>, then those of \<open>ks2\<close> on the array
  that \<open>ks1\<close> has left; and \<open>encode\<close> with the configuration \<open>rs1 @ rs2\<close> is
  \<open>encode\<close> with \<open>rs1\<close>, then the rules of \<open>rs2\<close> on its result. On the array
  \<open>[24]\<close> the rules \<open>24 \<rightarrow> 42\<close>, \<open>42 \<rightarrow> 0\<close> give \<open>[0]\<close> and the rules
  \<open>42 \<rightarrow> 0\<close>, \<open>24 \<rightarrow> 42\<close> give \<open>[42]\<close>.
\<close>

theorem rules_apply_in_order:
  "replace_loop P a (ks1 @ ks2) h =
     (case replace_loop P a ks1 h of
        (Inl e, h') \<Rightarrow> (Inl e, h')
      | (Inr u, h') \<Rightarrow> replace_loop P a ks2 h') \<and>
   (buf < length h \<longrightarrow>
      encode P \<lparr>replacements = rs1 @ rs2\<rparr> buf h =
        (case encode P \<lparr>replacements = rs1\<rparr> buf h of
           (Inl e, h1) \<Rightarrow> (Inl e, h1)
         | (Inr a, h1) \<Rightarrow>
             (case replace_loop P a (map (\<lambda>(k, v). (k, resolve P (h ! buf) v)) rs2) h1 of
                (Inl e, h2) \<Rightarrow> (Inl e, h2)
              | (Inr u, h2) \<Rightarrow> (Inr a, h2)))) \<and>
   encode P \<lparr>replacements = [(IntV 24, Lit (IntV 42)), (IntV 42, Lit (IntV 0))]\<rparr> 0 [\<lparr>dtype = int64, shape = [1], data = [IntV 24]\<rparr>] =
     (Inr 1, [\<lparr>dtype = int64, shape = [1], data = [IntV 24]\<rparr>, \<lparr>dtype = int64, shape = [1], data = [IntV 0]\<rparr>]) \<and>
   encode P \<lparr>replacements = [(IntV 42, Lit (IntV 0)), (IntV 24, Lit (IntV 42))]\<rparr> 0 [\<lparr>dtype = int64, shape = [1], data = [IntV 24]\<rparr>] =
     (Inr 1, [\<lparr>dtype = int64, shape = [1], data = [IntV 24]\<rparr>, \<lparr>dtype = int64, shape = [1], data = [IntV 42]\<rparr>])"
proof (intro conjI impI)
  show "replace_loop P a (ks1 @ ks2) h =
     (case replace_loop P a ks1 h of
        (Inl e, h') \<Rightarrow> (Inl e, h')
      | (Inr u, h') \<Rightarrow> replace_loop P a ks2 h')"
    by (rule replace_loop_append)
next
  assume "buf < length h"
  then show "encode P \<lparr>replacements = rs1 @ rs2\<rparr> buf h =
        (case encode P \<lparr>replacements = rs1\<rparr> buf h of
           (Inl e, h1) \<Rightarrow> (Inl e, h1)
         | (Inr a, h1) \<Rightarrow>
             (case replace_loop P a (map (\<lambda>(k, v). (k, resolve P (h ! buf) v)) rs2) h1 of
                (Inl e, h2) \<Rightarrow> (Inl e, h2)
              | (Inr u, h2) \<Rightarrow> (Inr a, h2)))"
    by (rule encode_append)
qed (simp_all add: encode_eq replace_step_eq issubdtype_floating_def int_min_def int_max_def
      np_equal_def num_eq_def)

theorem rules_apply_in_order_witness:
  "encode ideal_impl \<lparr>replacements = [(IntV 1, Lit (IntV 5))] @ [(IntV 5, Lit (IntV 1))]\<rparr> 0 [\<lparr>dtype = int64, shape = [2], data = [IntV 0, IntV 1]\<rparr>] =
     (Inr 1, [\<lparr>dtype = int64, shape = [2], data = [IntV 0, IntV 1]\<rparr>, \<lparr>dtype = int64, shape = [2], data = [IntV 0, IntV 1]\<rparr>])"
proof -
  have b: "0 < length [\<lparr>dtype = int64, shape = [2], data = [IntV 0, IntV 1]\<rparr>]" by simp
  have e: "encode ideal_impl \<lparr>replacements = [(IntV 1, Lit (IntV 5))]\<rparr> 0 [\<lparr>dtype = int64, shape = [2], data = [IntV 0, IntV 1]\<rparr>] = (Inr 1, [\<lparr>dtype = int64, shape = [2], data = [IntV 0, IntV 1]\<rparr>, \<lparr>dtype = int64, shape = [2], data = [IntV 0, IntV 5]\<rparr>])"
    by (simp add: encode_eq replace_step_eq compute_simps np_equal_def num_eq_def)
  have l: "replace_loop ideal_impl 1
       (map (\<lambda>(k, v). (k, resolve ideal_impl ([\<lparr>dtype = int64, shape = [2], data = [IntV 0, IntV 1]\<rparr>] ! 0) v)) [(IntV 5, Lit (IntV 1))]) [\<lparr>dtype = int64, shape = [2], data = [IntV 0, IntV 1]\<rparr>, \<lparr>dtype = int64, shape = [2], data = [IntV 0, IntV 5]\<rparr>] =
     (Inr (), [\<lparr>dtype = int64, shape = [2], data = [IntV 0, IntV 1]\<rparr>, \<lparr>dtype = int64, shape = [2], data = [IntV 0, IntV 1]\<rparr>])"
    by (simp add: replace_step_eq compute_simps np_equal_def num_eq_def)
  from rules_apply_in_order[where P = ideal_impl and buf = 0 and h = "[\<lparr>dtype = int64, shape = [2], data = [IntV 0, IntV 1]\<rparr>]"
      and ?rs1.0 = "[(IntV 1, Lit (IntV 5))]" and ?rs2.0 = "[(IntV 5, Lit (IntV 1))]"] b e l
  show ?thesis by simp
qed




text \<open>
  C6. The array that \<open>encode\<close> returns has the shape and the element type of the
  array it was given, and as many elements.
\<close>

theorem encode_preserves_shape_dtype:
  assumes "buf < length h" and "encode P self buf h = (Inr r, h')"
  shows "shape (h' ! r) = shape (h ! buf) \<and> dtype (h' ! r) = dtype (h ! buf) \<and>
         length (data (h' ! r)) = length (data (h ! buf))"
proof -
  from encode_loop[OF assms] obtain res' where
    l: "replace_loop P (length h)
          (map (\<lambda>(k, v). (k, resolve P (h ! buf) v)) (replacements self)) (h @ [h ! buf]) =
          (res', h')"
    and r: "r = length h" by auto
  from replace_loop_frame[OF l] r show ?thesis by simp
qed

theorem encode_preserves_shape_dtype_witness:
  "encode ideal_impl \<lparr>replacements = [(IntV 1, Lit (IntV 5)), (IntV 0, Member nan_max)]\<rparr> 0 [\<lparr>dtype = int64, shape = [2], data = [IntV 0, IntV 1]\<rparr>] = (Inr 1, [\<lparr>dtype = int64, shape = [2], data = [IntV 0, IntV 1]\<rparr>, \<lparr>dtype = int64, shape = [2], data = [IntV 1, IntV 5]\<rparr>]) \<and>
   shape ([\<lparr>dtype = int64, shape = [2], data = [IntV 0, IntV 1]\<rparr>, \<lparr>dtype = int64, shape = [2], data = [IntV 1, IntV 5]\<rparr>] ! 1) = [2] \<and> dtype ([\<lparr>dtype = int64, shape = [2], data = [IntV 0, IntV 1]\<rparr>, \<lparr>dtype = int64, shape = [2], data = [IntV 1, IntV 5]\<rparr>] ! 1) = int64 \<and> length (data ([\<lparr>dtype = int64, shape = [2], data = [IntV 0, IntV 1]\<rparr>, \<lparr>dtype = int64, shape = [2], data = [IntV 1, IntV 5]\<rparr>] ! 1)) = 2"
proof -
  have b: "0 < length [\<lparr>dtype = int64, shape = [2], data = [IntV 0, IntV 1]\<rparr>]" by simp
  from encode_preserves_shape_dtype[OF b encode_example] encode_example
  show ?thesis by simp
qed

text \<open>
  C7. \<open>decode\<close> of the array that \<open>encode\<close> has returned, called without a
  destination, returns that same array and changes nothing in the store. The result
  of \<open>decode\<close> does not depend on the configuration. With a destination of the same
  element type and number of elements, the destination receives the elements of the
  source as they are.
\<close>

theorem decode_passthrough:
  "(encode P self buf h0 = (Inr r, h) \<longrightarrow> decode P self r None h = (Inr r, h)) \<and>
   decode P self src out h = decode P other src out h \<and>
   (dst < length h \<longrightarrow> dtype (h ! dst) = dtype (h ! src) \<longrightarrow>
      length (data (h ! dst)) = length (data (h ! src)) \<longrightarrow>
      decode P self src (Some dst) h = (Inr dst, h[dst := (h ! dst)\<lparr>data := data (h ! src)\<rparr>]) \<and>
      data (h[dst := (h ! dst)\<lparr>data := data (h ! src)\<rparr>] ! dst) = data (h ! src))"
  by (simp add: decode_def ndarray_copy_def)

theorem decode_passthrough_witness:
  "decode ideal_impl \<lparr>replacements = [(IntV 1, Lit (IntV 5)), (IntV 0, Member nan_max)]\<rparr> 1 None [\<lparr>dtype = int64, shape = [2], data = [IntV 0, IntV 1]\<rparr>, \<lparr>dtype = int64, shape = [2], data = [IntV 1, IntV 5]\<rparr>] = (Inr 1, [\<lparr>dtype = int64, shape = [2], data = [IntV 0, IntV 1]\<rparr>, \<lparr>dtype = int64, shape = [2], data = [IntV 1, IntV 5]\<rparr>]) \<and>
   decode ideal_impl \<lparr>replacements = [(IntV 1, Lit (IntV 5)), (IntV 0, Member nan_max)]\<rparr> 1 (Some 0) [\<lparr>dtype = int64, shape = [2], data = [IntV 0, IntV 1]\<rparr>, \<lparr>dtype = int64, shape = [2], data = [IntV 1, IntV 5]\<rparr>] = (Inr 0, [\<lparr>dtype = int64, shape = [2], data = [IntV 1, IntV 5]\<rparr>, \<lparr>dtype = int64, shape = [2], data = [IntV 1, IntV 5]\<rparr>])"
proof -
  have d: "0 < length [\<lparr>dtype = int64, shape = [2], data = [IntV 0, IntV 1]\<rparr>, \<lparr>dtype = int64, shape = [2], data = [IntV 1, IntV 5]\<rparr>]" "dtype ([\<lparr>dtype = int64, shape = [2], data = [IntV 0, IntV 1]\<rparr>, \<lparr>dtype = int64, shape = [2], data = [IntV 1, IntV 5]\<rparr>] ! 0) = dtype ([\<lparr>dtype = int64, shape = [2], data = [IntV 0, IntV 1]\<rparr>, \<lparr>dtype = int64, shape = [2], data = [IntV 1, IntV 5]\<rparr>] ! 1)"
    "length (data ([\<lparr>dtype = int64, shape = [2], data = [IntV 0, IntV 1]\<rparr>, \<lparr>dtype = int64, shape = [2], data = [IntV 1, IntV 5]\<rparr>] ! 0)) = length (data ([\<lparr>dtype = int64, shape = [2], data = [IntV 0, IntV 1]\<rparr>, \<lparr>dtype = int64, shape = [2], data = [IntV 1, IntV 5]\<rparr>] ! 1))" by simp_all
  from decode_passthrough[where P = ideal_impl and self = "\<lparr>replacements = [(IntV 1, Lit (IntV 5)), (IntV 0, Member nan_max)]\<rparr>" and buf = 0 and ?h0.0 = "[\<lparr>dtype = int64, shape = [2], data = [IntV 0, IntV 1]\<rparr>]"
      and r = 1 and h = "[\<lparr>dtype = int64, shape = [2], data = [IntV 0, IntV 1]\<rparr>, \<lparr>dtype = int64, shape = [2], data = [IntV 1, IntV 5]\<rparr>]" and src = 1 and out = "Some 0" and other = "\<lparr>replacements = [(IntV 1, Lit (IntV 5)), (IntV 0, Member nan_max)]\<rparr>" and dst = 0]
    encode_example d
  show ?thesis by simp
qed

text \<open>
  C8. \<open>encode\<close> writes to no array that existed when it was called: after the
  call, whether it returns or raises, the store holds the arrays it held, unchanged
  and at their places, and one new array, the working copy; the array that was
  given is as it was, and the array returned is the new one.
\<close>

theorem encode_leaves_input:
  assumes "buf < length h" and "encode P self buf h = (res, h')"
  shows "take (length h) h' = h \<and> length h' = Suc (length h) \<and> h' ! buf = h ! buf \<and>
         (\<forall>r. res = Inr r \<longrightarrow> r = length h)"
proof -
  from encode_loop[OF assms] obtain res' where
    l: "replace_loop P (length h)
          (map (\<lambda>(k, v). (k, resolve P (h ! buf) v)) (replacements self)) (h @ [h ! buf]) =
          (res', h')"
    and r: "\<forall>r. res = Inr r \<longrightarrow> r = length h" by auto
  note f = replace_loop_frame[OF l]
  from f have len: "length h' = Suc (length h)" by simp
  have "take (length h) h' = h"
  proof (rule nth_equalityI)
    show "length (take (length h) h') = length h" using len by simp
  next
    fix i assume "i < length (take (length h) h')"
    then have i: "i < length h" by simp
    with f have "h' ! i = (h @ [h ! buf]) ! i" by simp
    with i show "take (length h) h' ! i = h ! i" by (simp add: nth_append)
  qed
  moreover from f assms(1) have "h' ! buf = h ! buf" by (simp add: nth_append)
  ultimately show ?thesis using len r by simp
qed

theorem encode_leaves_input_witness:
  "encode ideal_impl \<lparr>replacements = [(IntV 1, Lit (IntV 5)), (IntV 0, Member nan_max)]\<rparr> 0 [\<lparr>dtype = int64, shape = [2], data = [IntV 0, IntV 1]\<rparr>] = (Inr 1, [\<lparr>dtype = int64, shape = [2], data = [IntV 0, IntV 1]\<rparr>, \<lparr>dtype = int64, shape = [2], data = [IntV 1, IntV 5]\<rparr>]) \<and>
   take 1 [\<lparr>dtype = int64, shape = [2], data = [IntV 0, IntV 1]\<rparr>, \<lparr>dtype = int64, shape = [2], data = [IntV 1, IntV 5]\<rparr>] = [\<lparr>dtype = int64, shape = [2], data = [IntV 0, IntV 1]\<rparr>] \<and> [\<lparr>dtype = int64, shape = [2], data = [IntV 0, IntV 1]\<rparr>, \<lparr>dtype = int64, shape = [2], data = [IntV 1, IntV 5]\<rparr>] ! 0 = \<lparr>dtype = int64, shape = [2], data = [IntV 0, IntV 1]\<rparr> \<and> length [\<lparr>dtype = int64, shape = [2], data = [IntV 0, IntV 1]\<rparr>, \<lparr>dtype = int64, shape = [2], data = [IntV 1, IntV 5]\<rparr>] = 2"
proof -
  have b: "0 < length [\<lparr>dtype = int64, shape = [2], data = [IntV 0, IntV 1]\<rparr>]" by simp
  from encode_leaves_input[OF b encode_example] encode_example
  show ?thesis by simp
qed

text \<open>A step with a key that is not NaN leaves every NaN of the array as it is.\<close>

lemma replace_step_keeps_nan:
  assumes "\<not> isnan k" and "replace_step P a (k, v) h = (res, h')" and "a < length h"
    and "i < length (data (h ! a))" and "isnan (data (h ! a) ! i)"
  shows "data (h' ! a) ! i = data (h ! a) ! i"
  using assms by (auto simp: replace_step_eq np_equal_nan split: sum.splits)

lemma replace_loop_keeps_nan:
  "replace_loop P a kvs h = (res, h') \<Longrightarrow> list_all (\<lambda>(k, v). \<not> isnan k) kvs \<Longrightarrow>
   a < length h \<Longrightarrow> i < length (data (h ! a)) \<Longrightarrow> isnan (data (h ! a) ! i) \<Longrightarrow>
   data (h' ! a) ! i = data (h ! a) ! i"
proof (induction kvs arbitrary: h)
  case Nil
  then show ?case by simp
next
  case (Cons kv kvs)
  obtain k v where kv: "kv = (k, v)" by (cases kv)
  obtain r1 h1 where s: "replace_step P a (k, v) h = (r1, h1)"
    by (cases "replace_step P a (k, v) h")
  from Cons.prems(2) kv have k: "\<not> isnan k" and ks: "list_all (\<lambda>(k, v). \<not> isnan k) kvs"
    by simp_all
  note f = replace_step_frame[OF s]
  from replace_step_keeps_nan[OF k s Cons.prems(3) Cons.prems(4) Cons.prems(5)]
  have e: "data (h1 ! a) ! i = data (h ! a) ! i" .
  show ?case
  proof (cases r1)
    case (Inl err)
    with Cons.prems(1) s kv e show ?thesis by simp
  next
    case (Inr u)
    with Cons.prems(1) s kv have l: "replace_loop P a kvs h1 = (res, h')" by simp
    from f Cons.prems have "a < length h1" "i < length (data (h1 ! a))" by simp_all
    moreover from e Cons.prems(5) have "isnan (data (h1 ! a) ! i)" by simp
    ultimately have "data (h' ! a) ! i = data (h1 ! a) ! i"
      using Cons.IH[OF l ks] by simp
    with e show ?thesis by simp
  qed
qed

text \<open>
  C10. Rules whose keys are not NaN leave the NaN elements of the working copy as
  they are, bit pattern included, whether the loop ends or raises; so when no key
  of the configuration is NaN, every NaN of the array given to \<open>encode\<close> is in the
  result, at its place: only a rule with a NaN key rewrites a NaN.
\<close>

theorem nan_kept_by_other_keys:
  "(replace_loop P a kvs h = (res, h') \<longrightarrow> list_all (\<lambda>(k, v). \<not> isnan k) kvs \<longrightarrow>
      a < length h \<longrightarrow> i < length (data (h ! a)) \<longrightarrow> isnan (data (h ! a) ! i) \<longrightarrow>
      data (h' ! a) ! i = data (h ! a) ! i) \<and>
   (encode P self buf h = (Inr r, h') \<longrightarrow>
      list_all (\<lambda>(k, v). \<not> isnan k) (replacements self) \<longrightarrow>
      buf < length h \<longrightarrow> i < length (data (h ! buf)) \<longrightarrow> isnan (data (h ! buf) ! i) \<longrightarrow>
      data (h' ! r) ! i = data (h ! buf) ! i)"
proof (intro conjI impI)
  assume "replace_loop P a kvs h = (res, h')" "list_all (\<lambda>(k, v). \<not> isnan k) kvs"
    "a < length h" "i < length (data (h ! a))" "isnan (data (h ! a) ! i)"
  then show "data (h' ! a) ! i = data (h ! a) ! i" by (rule replace_loop_keeps_nan)
next
  assume e: "encode P self buf h = (Inr r, h')"
    and ks: "list_all (\<lambda>(k, v). \<not> isnan k) (replacements self)"
    and b: "buf < length h" and i: "i < length (data (h ! buf))"
    and n: "isnan (data (h ! buf) ! i)"
  let ?rs = "map (\<lambda>(k, v). (k, resolve P (h ! buf) v)) (replacements self)"
  from encode_loop[OF b e] obtain res' where
    l: "replace_loop P (length h) ?rs (h @ [h ! buf]) = (res', h')" and r: "r = length h"
    by auto
  from ks have ks': "list_all (\<lambda>(k, v). \<not> isnan k) ?rs"
    by (simp add: list_all_iff case_prod_beta)
  have "data (h' ! length h) ! i = data ((h @ [h ! buf]) ! length h) ! i"
    using replace_loop_keeps_nan[OF l ks', of i] i n by simp
  with r show "data (h' ! r) ! i = data (h ! buf) ! i" by simp
qed

theorem nan_kept_by_other_keys_witness:
  "encode ideal_impl \<lparr>replacements = [(IntV 1, Lit (IntV 9))]\<rparr> 0 [\<lparr>dtype = float64, shape = [2], data = [FloatV (NaN True 3), FloatV (Fin 1)]\<rparr>] = (Inr 1, [\<lparr>dtype = float64, shape = [2], data = [FloatV (NaN True 3), FloatV (Fin 1)]\<rparr>, \<lparr>dtype = float64, shape = [2], data = [FloatV (NaN True 3), FloatV (Fin 9)]\<rparr>]) \<and>
   data ([\<lparr>dtype = float64, shape = [2], data = [FloatV (NaN True 3), FloatV (Fin 1)]\<rparr>, \<lparr>dtype = float64, shape = [2], data = [FloatV (NaN True 3), FloatV (Fin 9)]\<rparr>] ! 1) ! 0 = FloatV (NaN True 3) \<and>
   replace_loop ideal_impl 0 [(IntV 1, Py (IntV 9))] [\<lparr>dtype = float64, shape = [2], data = [FloatV (NaN True 3), FloatV (Fin 1)]\<rparr>] = (Inr (), [\<lparr>dtype = float64, shape = [2], data = [FloatV (NaN True 3), FloatV (Fin 9)]\<rparr>]) \<and>
   data ([\<lparr>dtype = float64, shape = [2], data = [FloatV (NaN True 3), FloatV (Fin 9)]\<rparr>] ! 0) ! 0 = FloatV (NaN True 3)"
proof -
  have l: "replace_loop ideal_impl 0 [(IntV 1, Py (IntV 9))] [\<lparr>dtype = float64, shape = [2], data = [FloatV (NaN True 3), FloatV (Fin 1)]\<rparr>] = (Inr (), [\<lparr>dtype = float64, shape = [2], data = [FloatV (NaN True 3), FloatV (Fin 9)]\<rparr>])"
    by (simp add: replace_step_eq issubdtype_floating_def precision_def np_equal_def num_eq_def)
  have k: "list_all (\<lambda>(k, v). \<not> isnan k) (replacements \<lparr>replacements = [(IntV 1, Lit (IntV 9))]\<rparr>)"
    "list_all (\<lambda>(k, v). \<not> isnan k) [(IntV 1, Py (IntV 9))]" by simp_all
  have i: "0 < length [\<lparr>dtype = float64, shape = [2], data = [FloatV (NaN True 3), FloatV (Fin 1)]\<rparr>]" "0 < length (data ([\<lparr>dtype = float64, shape = [2], data = [FloatV (NaN True 3), FloatV (Fin 1)]\<rparr>] ! 0))" "isnan (data ([\<lparr>dtype = float64, shape = [2], data = [FloatV (NaN True 3), FloatV (Fin 1)]\<rparr>] ! 0) ! 0)"
    by simp_all
  from nan_kept_by_other_keys[of ideal_impl 0 "[(IntV 1, Py (IntV 9))]" "[\<lparr>dtype = float64, shape = [2], data = [FloatV (NaN True 3), FloatV (Fin 1)]\<rparr>]" "Inr ()" "[\<lparr>dtype = float64, shape = [2], data = [FloatV (NaN True 3), FloatV (Fin 9)]\<rparr>]" 0
      "\<lparr>replacements = [(IntV 1, Lit (IntV 9))]\<rparr>" 0 1]
    l k i
  have 1: "data ([\<lparr>dtype = float64, shape = [2], data = [FloatV (NaN True 3), FloatV (Fin 9)]\<rparr>] ! 0) ! 0 = FloatV (NaN True 3)" by simp
  from nan_kept_by_other_keys[of ideal_impl 0 "[(IntV 1, Py (IntV 9))]" "[\<lparr>dtype = float64, shape = [2], data = [FloatV (NaN True 3), FloatV (Fin 1)]\<rparr>]" "Inr ()" "[\<lparr>dtype = float64, shape = [2], data = [FloatV (NaN True 3), FloatV (Fin 1)]\<rparr>, \<lparr>dtype = float64, shape = [2], data = [FloatV (NaN True 3), FloatV (Fin 9)]\<rparr>]" 0
      "\<lparr>replacements = [(IntV 1, Lit (IntV 9))]\<rparr>" 0 1]
    encode_nan_example k i
  have 2: "data ([\<lparr>dtype = float64, shape = [2], data = [FloatV (NaN True 3), FloatV (Fin 1)]\<rparr>, \<lparr>dtype = float64, shape = [2], data = [FloatV (NaN True 3), FloatV (Fin 9)]\<rparr>] ! 1) ! 0 = FloatV (NaN True 3)" by simp
  from 1 2 l encode_nan_example show ?thesis by simp
qed

end
